theory Spec2Isabelle
  imports Complex_Main "HOL-Library.Multiset"
begin

section \<open>JavaScript values and strings\<close>

text \<open>
  The front end is TypeScript, so at run time every value is a JavaScript value whatever its
  declared type says.  A string is the list of its code units; the development covers the code
  units below 256, which is what \<^typ>\<open>char\<close> holds.  Numbers are IEEE doubles in the
  program; every finite double is a rational, and the model keeps the three non-finite values
  apart.  \<open>Builtin n\<close> stands for a member that a plain object inherits from
  \<open>Object.prototype\<close> under the name \<open>n\<close> (a function, or the prototype object itself for
  \<open>__proto__\<close>): it is truthy, it is not a string, and it has no method \<open>trim\<close> or
  \<open>includes\<close>.
\<close>

datatype jsnum = NaN | PosInfinity | NegInfinity | Finite rat

datatype jsval =
    Undefined
  | Null
  | Bool bool
  | Num jsnum
  | Str string
  | Array "jsval list"
  | Object "(string \<times> jsval) list"
  | Builtin string

datatype js_error = TypeError

text \<open>Truthiness, as \<open>if (v)\<close> and \<open>v || w\<close> test it.\<close>

fun truthy :: "jsval \<Rightarrow> bool" where
  "truthy Undefined = False"
| "truthy Null = False"
| "truthy (Bool b) = b"
| "truthy (Num n) = (n \<noteq> NaN \<and> n \<noteq> Finite 0)"
| "truthy (Str s) = (s \<noteq> [])"
| "truthy (Array xs) = True"
| "truthy (Object kvs) = True"
| "truthy (Builtin n) = True"

text \<open>
  \<open>String.prototype.trim\<close> strips WhiteSpace and LineTerminator code units from both ends.
  Below 256 these are TAB, LF, VT, FF, CR, SPACE and NO-BREAK SPACE.
\<close>

definition isWhiteSpace :: "char \<Rightarrow> bool" where
  "isWhiteSpace c =
     (c \<in> set [CHR 0x09, CHR 0x0A, CHR 0x0B, CHR 0x0C, CHR 0x0D, CHR 0x20, CHR 0xA0])"

definition trim :: "string \<Rightarrow> string" where
  "trim s = rev (dropWhile isWhiteSpace (rev (dropWhile isWhiteSpace s)))"

definition startsWith :: "string \<Rightarrow> string \<Rightarrow> bool" where
  "startsWith s p = (take (length p) s = p)"

definition endsWith :: "string \<Rightarrow> string \<Rightarrow> bool" where
  "endsWith s p = (length p \<le> length s \<and> drop (length s - length p) s = p)"

text \<open>\<open>s.includes(p)\<close>: \<open>p\<close> occurs in \<open>s\<close> at some position, tried from the left.\<close>

fun str_includes :: "string \<Rightarrow> string \<Rightarrow> bool" where
  "str_includes [] p = (p = [])"
| "str_includes (c # cs) p = (startsWith (c # cs) p \<or> str_includes cs p)"

text \<open>
  Plain objects.  A property read \<open>obj[k]\<close> finds an own property first and then walks the
  prototype chain, where a plain object has the members of \<open>Object.prototype\<close>.
\<close>

definition object_prototype_keys :: "string list" where
  "object_prototype_keys =
     [''constructor'', ''hasOwnProperty'', ''isPrototypeOf'', ''propertyIsEnumerable'',
      ''toLocaleString'', ''toString'', ''valueOf'', ''__proto__'',
      ''__defineGetter__'', ''__defineSetter__'', ''__lookupGetter__'', ''__lookupSetter__'']"

definition js_get :: "(string \<times> jsval) list \<Rightarrow> string \<Rightarrow> jsval" where
  "js_get kvs k =
     (case map_of kvs k of
        Some v \<Rightarrow> v
      | None \<Rightarrow> if k \<in> set object_prototype_keys then Builtin k else Undefined)"

text \<open>
  An assignment \<open>obj[k] = v\<close> replaces the value of an own key where it stands and appends
  a new key.  A loop of such assignments builds \<open>js_object_of\<close>; the key \<open>__proto__\<close> is the
  prototype accessor, so assigning an object to it creates no own property.  The order of the
  keys is the order of insertion (integer-like keys, which JavaScript lists first, play no
  role in what follows).
\<close>

fun js_assign :: "string \<Rightarrow> 'a \<Rightarrow> (string \<times> 'a) list \<Rightarrow> (string \<times> 'a) list" where
  "js_assign k v [] = [(k, v)]"
| "js_assign k v ((k', v') # kvs) =
     (if k = k' then (k, v) # kvs else (k', v') # js_assign k v kvs)"

definition js_object_of :: "(string \<times> 'a) list \<Rightarrow> (string \<times> 'a) list" where
  "js_object_of entries =
     foldl (\<lambda>obj (k, v). if k = ''__proto__'' then obj else js_assign k v obj) [] entries"

text \<open>The operators \<open>v ?? d\<close> and, for an optional string, \<open>v || d\<close>.\<close>

definition nullish :: "jsval \<Rightarrow> jsval \<Rightarrow> jsval" where
  "nullish v d = (if v = Undefined \<or> v = Null then d else v)"

definition or_string :: "string option \<Rightarrow> string \<Rightarrow> string" where
  "or_string v d = (case v of None \<Rightarrow> d | Some s \<Rightarrow> if s = [] then d else s)"

definition opt_str :: "string option \<Rightarrow> jsval" where
  "opt_str v = (case v of None \<Rightarrow> Undefined | Some s \<Rightarrow> Str s)"

text \<open>A template literal renders a non-negative integer in decimal digits.\<close>

function number_to_string :: "nat \<Rightarrow> string" where
  "number_to_string n =
     (if n < 10 then [char_of (48 + n)]
      else number_to_string (n div 10) @ [char_of (48 + n mod 10)])"
  by pat_completeness auto
termination
  by (relation "measure id") auto

section \<open>Cardinality helpers (types/aas-elements.ts)\<close>

text \<open>
  The object literal \<open>mapping\<close> of \<open>normalizeCardinality\<close>.  The lookup
  \<open>mapping[trimmed]\<close> is \<open>js_get mapping trimmed\<close>: it reaches the five own keys and,
  behind them, the members inherited from \<open>Object.prototype\<close>.
\<close>

definition mapping :: "(string \<times> jsval) list" where
  "mapping =
     [(''ZeroToOne'', Str ''[0..1]''),
      (''ZeroToMany'', Str ''[0..*]''),
      (''OneToMany'', Str ''[1..*]''),
      (''One'', Str ''[1]''),
      (''Zero'', Str ''[0]'')]"

text \<open>
  The regular expression literal of the last test is written \<open>/^\\d+$/\<close> in the source: an
  escaped backslash followed by \<open>d+\<close>.  It accepts a backslash followed by one or more
  letters \<open>d\<close> and nothing else.
\<close>

definition regex_backslash_d_plus :: "string \<Rightarrow> bool" where
  "regex_backslash_d_plus s =
     (case s of
        [] \<Rightarrow> False
      | c # ds \<Rightarrow> c = CHR 0x5C \<and> ds \<noteq> [] \<and> list_all (\<lambda>d. d = CHR ''d'') ds)"

text \<open>
  \<open>normalizeCardinality\<close>, for an argument of its declared type \<open>string\<close>.  The result is
  declared \<open>string\<close> too, but \<open>return mapping[trimmed]\<close> hands back whatever the lookup found,
  so the model returns a JavaScript value.
\<close>

definition normalizeCardinality :: "string \<Rightarrow> jsval" where
  "normalizeCardinality cardinality =
     (let trimmed = trim (if truthy (Str cardinality) then cardinality else []) in
        if truthy (js_get mapping trimmed) then js_get mapping trimmed
        else if startsWith trimmed ''['' \<and> endsWith trimmed '']'' then Str trimmed
        else if str_includes trimmed ''..'' then Str (''['' @ trimmed @ '']'')
        else if regex_backslash_d_plus trimmed then Str (''['' @ trimmed @ '']'')
        else Str trimmed)"

text \<open>
  The same function entered with an arbitrary run-time value, as happens when its own result
  is passed back in: \<open>(cardinality || '')\<close> replaces a falsy argument by the empty string, and
  calling \<open>trim\<close> on a truthy value that is not a string raises a TypeError.
\<close>

definition normalizeCardinality_rt :: "jsval \<Rightarrow> js_error + jsval" where
  "normalizeCardinality_rt cardinality =
     (case (if truthy cardinality then cardinality else Str []) of
        Str s \<Rightarrow> Inr (normalizeCardinality s)
      | _ \<Rightarrow> Inl TypeError)"

text \<open>\<open>normalized.includes(p)\<close> on the value that \<open>normalizeCardinality\<close> returned.\<close>

definition js_includes :: "jsval \<Rightarrow> string \<Rightarrow> js_error + bool" where
  "js_includes v p = (case v of Str s \<Rightarrow> Inr (str_includes s p) | _ \<Rightarrow> Inl TypeError)"

definition isRequired :: "string \<Rightarrow> bool" where
  "isRequired cardinality =
     (let normalized = normalizeCardinality cardinality in
        normalized = Str ''[1]'' \<or> normalized = Str ''[1..*]'')"

definition allowsMultiple :: "string \<Rightarrow> js_error + bool" where
  "allowsMultiple cardinality =
     (let normalized = normalizeCardinality cardinality in
        case js_includes normalized ''*'' of
          Inl e \<Rightarrow> Inl e
        | Inr True \<Rightarrow> Inr True
        | Inr False \<Rightarrow> js_includes normalized ''..'')"

definition getMinItems :: "string \<Rightarrow> nat" where
  "getMinItems cardinality =
     (let normalized = normalizeCardinality cardinality in
        if normalized = Str ''[1..*]'' then 1
        else if normalized = Str ''[0..*]'' \<or> normalized = Str ''[0..1]'' then 0
        else if normalized = Str ''[1]'' then 1
        else 0)"

text \<open>The result \<open>None\<close> is JavaScript's \<open>undefined\<close>: no upper bound.\<close>

definition getMaxItems :: "string \<Rightarrow> js_error + nat option" where
  "getMaxItems cardinality =
     (let normalized = normalizeCardinality cardinality in
        case js_includes normalized ''*'' of
          Inl e \<Rightarrow> Inl e
        | Inr True \<Rightarrow> Inr None
        | Inr False \<Rightarrow>
            if normalized = Str ''[0..1]'' \<or> normalized = Str ''[1]'' then Inr (Some 1)
            else Inr None)"

section \<open>The UI schema (types/ui-schema.ts)\<close>

datatype ElementModelType =
    Property
  | SubmodelElementCollection
  | SubmodelElementList
  | MultiLanguageProperty
  | File
  | Blob
  | RangeElement
  | ReferenceElement
  | Entity
  | RelationshipElement
  | AnnotatedRelationshipElement
  | Operation
  | Capability
  | BasicEventElement

record QualifierSchema =
  qualifier_type :: string
  qualifier_value :: "string option"
  qualifier_valueType :: "string option"
  qualifier_semanticId :: "string option"
  qualifier_kind :: "string option"

text \<open>
  \<open>UIElementSchema\<close>: the fields the form code reads.  An optional string is an option; the
  fields of type \<open>unknown\<close> are JavaScript values, \<open>Undefined\<close> when absent.  The optional
  arrays \<open>elements\<close>, \<open>items\<close> and \<open>statements\<close> are read as \<open>x || []\<close> or guarded by
  \<open>x &&\<close> everywhere, so an absent array is the empty list.
\<close>

record ElementAttrs =
  idShort :: string
  modelType :: ElementModelType
  semanticId :: "string option"
  semanticLabel :: "string option"
  qualifiers :: "QualifierSchema list"
  cardinality :: string
  valueType :: "string option"
  element_value :: jsval
  contentType :: "string option"
  range_min :: jsval
  range_max :: jsval
  globalAssetId :: "string option"

datatype UIElementSchema = UIElementSchema
  (attrs: ElementAttrs)
  (elements: "UIElementSchema list")
  (itemTemplate: "UIElementSchema option")
  (items: "UIElementSchema list")
  (statements: "UIElementSchema list")

section \<open>Zod schemas\<close>

text \<open>
  The schemas that \<open>generateZodSchema\<close> builds with the library Zod, and what parsing a value
  against them returns: the parsed value, or the list of issues.
  \<open>ZCoerceNumber\<close> is \<open>z.coerce.number()\<close>, \<open>ZCoerceNumberInt\<close> is
  \<open>z.coerce.number().int()\<close>, \<open>ZStringMin n\<close> is \<open>z.string().min(n)\<close>, \<open>ZArrayMin s n\<close> is
  \<open>z.array(s).min(n)\<close>, \<open>ZRecord s\<close> is \<open>z.record(s)\<close>.
\<close>

datatype zod =
    ZAny
  | ZString
  | ZStringMin nat
  | ZBoolean
  | ZCoerceNumber
  | ZCoerceNumberInt
  | ZOptional zod
  | ZNullable zod
  | ZRecord zod
  | ZArrayMin zod nat
  | ZObject "(string \<times> zod) list"

datatype path_elem = Key string | Index nat

datatype issue_code = invalid_type | too_small

datatype zod_issue = ZodIssue issue_code "path_elem list"

type_synonym parse_result = "zod_issue list + jsval"

fun under :: "path_elem \<Rightarrow> zod_issue \<Rightarrow> zod_issue" where
  "under p (ZodIssue c ps) = ZodIssue c (p # ps)"

definition issues_of :: "path_elem \<Rightarrow> parse_result \<Rightarrow> zod_issue list" where
  "issues_of p r = (case r of Inl is \<Rightarrow> map (under p) is | Inr v \<Rightarrow> [])"

definition value_of :: "parse_result \<Rightarrow> jsval" where
  "value_of r = (case r of Inl is \<Rightarrow> Undefined | Inr v \<Rightarrow> v)"

definition finish :: "zod_issue list \<Rightarrow> jsval \<Rightarrow> parse_result" where
  "finish is v = (if is = [] then Inr v else Inl is)"

text \<open>
  Parsing.  The coercing number schemas first apply the built-in conversion \<open>Number(v)\<close>,
  which is the parameter \<open>N\<close>; a result \<open>NaN\<close> is a type issue, and \<open>int()\<close> asks for
  \<open>Number.isInteger\<close>.  \<open>optional()\<close> lets \<open>undefined\<close> through and \<open>nullable()\<close> lets
  \<open>null\<close> through; every other value goes to the inner schema.  An object schema reads each
  key of its shape from the data, drops unknown keys, and keeps a key in its output when the
  parsed value is defined or the data had the key.
\<close>

fun zparse :: "(jsval \<Rightarrow> jsnum) \<Rightarrow> zod \<Rightarrow> jsval \<Rightarrow> parse_result" where
  "zparse N ZAny v = Inr v"
| "zparse N ZString v = (case v of Str s \<Rightarrow> Inr v | _ \<Rightarrow> Inl [ZodIssue invalid_type []])"
| "zparse N (ZStringMin n) v =
     (case v of
        Str s \<Rightarrow> if length s < n then Inl [ZodIssue too_small []] else Inr v
      | _ \<Rightarrow> Inl [ZodIssue invalid_type []])"
| "zparse N ZBoolean v = (case v of Bool b \<Rightarrow> Inr v | _ \<Rightarrow> Inl [ZodIssue invalid_type []])"
| "zparse N ZCoerceNumber v =
     (case N v of NaN \<Rightarrow> Inl [ZodIssue invalid_type []] | n \<Rightarrow> Inr (Num n))"
| "zparse N ZCoerceNumberInt v =
     (case N v of
        Finite r \<Rightarrow>
          if of_int \<lfloor>r\<rfloor> = r then Inr (Num (Finite r)) else Inl [ZodIssue invalid_type []]
      | _ \<Rightarrow> Inl [ZodIssue invalid_type []])"
| "zparse N (ZOptional z) v = (if v = Undefined then Inr Undefined else zparse N z v)"
| "zparse N (ZNullable z) v = (if v = Null then Inr Null else zparse N z v)"
| "zparse N (ZRecord z) v =
     (case v of
        Object kvs \<Rightarrow>
          (let rs = map (\<lambda>kv. (fst kv, zparse N z (snd kv))) kvs
           in finish (concat (map (\<lambda>kr. issues_of (Key (fst kr)) (snd kr)) rs))
                     (Object (map (\<lambda>kr. (fst kr, value_of (snd kr))) rs)))
      | _ \<Rightarrow> Inl [ZodIssue invalid_type []])"
| "zparse N (ZArrayMin z n) v =
     (case v of
        Array xs \<Rightarrow>
          (let rs = map (zparse N z) xs
           in finish ((if length xs < n then [ZodIssue too_small []] else []) @
                      concat (map (\<lambda>ir. issues_of (Index (fst ir)) (snd ir)) (enumerate 0 rs)))
                     (Array (map value_of rs)))
      | _ \<Rightarrow> Inl [ZodIssue invalid_type []])"
| "zparse N (ZObject shape) v =
     (case v of
        Object kvs \<Rightarrow>
          (let rs = map (\<lambda>kz. (fst kz, zparse N (snd kz) (js_get kvs (fst kz)))) shape
           in finish (concat (map (\<lambda>kr. issues_of (Key (fst kr)) (snd kr)) rs))
                     (Object (filter (\<lambda>kv. \<not> (snd kv = Undefined \<and> fst kv \<notin> fst ` set kvs))
                                (map (\<lambda>kr. (fst kr, value_of (snd kr))) rs))))
      | _ \<Rightarrow> Inl [ZodIssue invalid_type []])"

section \<open>The submodel form hook (useSubmodelForm, in hooks/useTemplateList.ts)\<close>

text \<open>
  The \<open>if\<close> chain that picks the schema of a Property's value has five branches.
  \<open>propertyValueKind\<close> is the branch taken and \<open>kindSchema\<close> is the schema the branch
  assigns, so that \<open>propSchema\<close> of the source is \<open>kindSchema (propertyValueKind valueType)\<close>.
\<close>

datatype valueKind = KInteger | KDecimal | KBoolean | KDate | KText

definition propertyValueKind :: "string \<Rightarrow> valueKind" where
  "propertyValueKind vt =
     (if str_includes vt ''int'' \<or> str_includes vt ''Integer'' then KInteger
      else if str_includes vt ''float'' \<or> str_includes vt ''double'' \<or>
              str_includes vt ''decimal'' then KDecimal
      else if str_includes vt ''bool'' then KBoolean
      else if str_includes vt ''date'' then KDate
      else KText)"

fun kindSchema :: "valueKind \<Rightarrow> zod" where
  "kindSchema KInteger = ZCoerceNumberInt"
| "kindSchema KDecimal = ZCoerceNumber"
| "kindSchema KBoolean = ZBoolean"
| "kindSchema KDate = ZString"
| "kindSchema KText = ZString"

fun generateZodSchema :: "UIElementSchema \<Rightarrow> zod" where
  "generateZodSchema (UIElementSchema element els tmpl its stmts) =
     (let required = isRequired (cardinality element) in
      case modelType element of
        Property \<Rightarrow>
          (let vt = or_string (valueType element) ''xs:string'';
               propSchema = kindSchema (propertyValueKind vt)
           in ZObject [(''value'', if required then propSchema
                                  else ZNullable (ZOptional propSchema))])
      | MultiLanguageProperty \<Rightarrow> ZObject [(''value'', ZOptional (ZRecord ZString))]
      | SubmodelElementCollection \<Rightarrow>
          ZObject [(''elements'',
            ZObject (js_object_of
              (map (\<lambda>child. (idShort (attrs child), generateZodSchema child)) els)))]
      | SubmodelElementList \<Rightarrow>
          (let itemSchema = (case tmpl of Some t \<Rightarrow> generateZodSchema t | None \<Rightarrow> ZAny);
               minItems = (if cardinality element = ''[1..*]'' then 1 else 0)
           in ZObject [(''items'', ZArrayMin itemSchema minItems)])
      | File \<Rightarrow>
          ZObject [(''value'', if required then ZStringMin 1 else ZOptional ZString),
                   (''contentType'', ZOptional ZString)]
      | RangeElement \<Rightarrow>
          (let vt = or_string (valueType element) ''xs:double'';
               numSchema = (if str_includes vt ''int'' then ZCoerceNumberInt
                            else ZCoerceNumber)
           in ZObject
                [(''min'', if required then numSchema else ZNullable (ZOptional numSchema)),
                 (''max'', if required then numSchema else ZNullable (ZOptional numSchema))])
      | ReferenceElement \<Rightarrow>
          ZObject [(''value'', if required then ZStringMin 1 else ZOptional ZString)]
      | Entity \<Rightarrow>
          ZObject [(''globalAssetId'', ZOptional ZString),
                   (''statements'',
                    ZObject (js_object_of
                      (map (\<lambda>stmt. (idShort (attrs stmt), generateZodSchema stmt)) stmts)))]
      | _ \<Rightarrow> ZAny)"

fun generateElementDefaults :: "UIElementSchema \<Rightarrow> jsval" where
  "generateElementDefaults (UIElementSchema element els tmpl its stmts) =
     (case modelType element of
        Property \<Rightarrow> Object [(''value'', nullish (element_value element) (Str []))]
      | MultiLanguageProperty \<Rightarrow>
          Object [(''value'', nullish (element_value element) (Object []))]
      | SubmodelElementCollection \<Rightarrow>
          Object [(''elements'',
            Object (js_object_of
              (map (\<lambda>child. (idShort (attrs child), generateElementDefaults child)) els)))]
      | SubmodelElementList \<Rightarrow>
          Object [(''items'', Array (map generateElementDefaults its))]
      | File \<Rightarrow>
          Object [(''value'', nullish (element_value element) (Str [])),
                  (''contentType'', nullish (opt_str (contentType element)) (Str []))]
      | RangeElement \<Rightarrow>
          Object [(''min'', nullish (range_min element) (Str [])),
                  (''max'', nullish (range_max element) (Str []))]
      | ReferenceElement \<Rightarrow> Object [(''value'', nullish (element_value element) (Str []))]
      | Entity \<Rightarrow>
          Object [(''globalAssetId'', nullish (opt_str (globalAssetId element)) (Str [])),
                  (''statements'',
                   Object (js_object_of
                     (map (\<lambda>stmt. (idShort (attrs stmt), generateElementDefaults stmt))
                        stmts)))]
      | _ \<Rightarrow> Object [(''value'', nullish (element_value element) (Str []))])"

text \<open>
  The value kinds as the specification words them, for comparison with \<open>propertyValueKind\<close>:
  presence of int gives integer, of float, double or decimal gives decimal, of bool gives
  boolean, of date gives date, else text.
\<close>

definition spec_valueKind :: "string \<Rightarrow> valueKind" where
  "spec_valueKind vt =
     (if str_includes vt ''int'' then KInteger
      else if str_includes vt ''float'' \<or> str_includes vt ''double'' \<or>
              str_includes vt ''decimal'' then KDecimal
      else if str_includes vt ''bool'' then KBoolean
      else if str_includes vt ''date'' then KDate
      else KText)"

section \<open>The list field (components/AASRenderer/ListField.tsx)\<close>

text \<open>
  \<open>createDefaultItem\<close>: the form data of a newly added item, from the item template.
\<close>

fun createDefaultItem :: "UIElementSchema option \<Rightarrow> jsval" where
  "createDefaultItem None = Object [(''value'', Str [])]"
| "createDefaultItem (Some (UIElementSchema template els tmpl its stmts)) =
     (case modelType template of
        Property \<Rightarrow> Object [(''value'', nullish (element_value template) (Str []))]
      | MultiLanguageProperty \<Rightarrow> Object [(''value'', Object [])]
      | SubmodelElementCollection \<Rightarrow>
          Object [(''elements'',
            Object (js_object_of
              (map (\<lambda>child. (idShort (attrs child), createDefaultItem (Some child))) els)))]
      | RangeElement \<Rightarrow> Object [(''min'', Str []), (''max'', Str [])]
      | File \<Rightarrow> Object [(''value'', Str []), (''contentType'', Str [])]
      | ReferenceElement \<Rightarrow> Object [(''value'', Str [])]
      | _ \<Rightarrow> Object [(''value'', Str [])])"

text \<open>
  \<open>useFieldArray\<close> of react-hook-form holds the list \<open>fields\<close> (\<open>flds\<close> below).  Each
  entry pairs the key \<open>id\<close>, which the library generates once when it first sees the item,
  with the item's form data.  \<open>append\<close> adds an entry at the end, \<open>remove\<close> deletes the entry at an index and
  \<open>move\<close> takes the entry at one index out and puts it back in at another.  With an index
  outside the list \<open>move\<close> would insert an undefined entry; the model returns \<open>None\<close> there.
\<close>

definition fa_append :: "'a list \<Rightarrow> 'a \<Rightarrow> 'a list" where
  "fa_append flds x = flds @ [x]"

definition fa_remove :: "'a list \<Rightarrow> nat \<Rightarrow> 'a list" where
  "fa_remove flds i = take i flds @ drop (Suc i) flds"

definition fa_move :: "'a list \<Rightarrow> nat \<Rightarrow> nat \<Rightarrow> 'a list option" where
  "fa_move flds i j =
     (if i < length flds \<and> j < length flds
      then Some (let rest = take i flds @ drop (Suc i) flds
                 in take j rest @ flds ! i # drop j rest)
      else None)"

text \<open>The handlers of the component; \<open>newId\<close> is the key the library generates.\<close>

definition handleAddItem ::
    "UIElementSchema \<Rightarrow> ('id \<times> jsval) list \<Rightarrow> 'id \<Rightarrow> ('id \<times> jsval) list" where
  "handleAddItem schema flds newId =
     fa_append flds (newId, createDefaultItem (itemTemplate schema))"

definition handleRemoveItem :: "UIElementSchema \<Rightarrow> 'a list \<Rightarrow> nat \<Rightarrow> 'a list" where
  "handleRemoveItem schema flds index =
     (let minItems = getMinItems (cardinality (attrs schema));
          canRemove = (minItems < length flds)
      in if canRemove \<or> minItems < length flds then fa_remove flds index else flds)"

definition handleMoveUp :: "'a list \<Rightarrow> nat \<Rightarrow> 'a list option" where
  "handleMoveUp flds index =
     (if 0 < index then fa_move flds index (index - 1) else Some flds)"

definition handleMoveDown :: "'a list \<Rightarrow> nat \<Rightarrow> 'a list option" where
  "handleMoveDown flds index =
     (if int index < int (length flds) - 1 then fa_move flds index (index + 1)
      else Some flds)"

text \<open>
  \<open>getItemSchema\<close>: the schema, and with it the semantic identifier and the qualifiers, that
  the component uses for the item at an index.  It is the existing item schema at that index
  when there is one, else the item template with the index appended to its \<open>idShort\<close>, else
  a default text Property.  (The fields \<open>description\<close>, \<open>category\<close> and \<open>inputType\<close> of the
  default are not part of \<open>ElementAttrs\<close>.)
\<close>

definition getItemSchema :: "UIElementSchema \<Rightarrow> nat \<Rightarrow> UIElementSchema" where
  "getItemSchema schema index =
     (if index < length (items schema) then items schema ! index
      else case itemTemplate schema of
        Some t \<Rightarrow>
          UIElementSchema
            ((attrs t)\<lparr> idShort := idShort (attrs t) @ ''_'' @ number_to_string index \<rparr>)
            (elements t) (itemTemplate t) (items t) (statements t)
      | None \<Rightarrow>
          UIElementSchema
            \<lparr> idShort = ''item_'' @ number_to_string index, modelType = Property,
              semanticId = None, semanticLabel = None, qualifiers = [],
              cardinality = ''[1]'', valueType = Some ''xs:string'',
              element_value = Undefined, contentType = None, range_min = Undefined,
              range_max = Undefined, globalAssetId = None \<rparr>
            [] None [] [])"

text \<open>
  The render loop \<open>fields.map((field, index) => ...)\<close>: the entry at an index is drawn under
  its key \<open>field.id\<close> with the schema \<open>getItemSchema(index)\<close>.  The result lists, for every
  entry, its key, its form data and the schema it is given.
\<close>

definition renderItems ::
    "UIElementSchema \<Rightarrow> ('id \<times> 'v) list \<Rightarrow> ('id \<times> 'v \<times> UIElementSchema) list" where
  "renderItems schema flds =
     map (\<lambda>(index, field). (fst field, snd field, getItemSchema schema index))
       (enumerate 0 flds)"



section \<open>Example data\<close>

text \<open>
  An optional Property of type \<open>xs:boolean\<close> with no value, and a SubmodelElementList with
  a given cardinality and no item template.
\<close>

definition optionalBooleanProperty :: UIElementSchema where
  "optionalBooleanProperty =
     UIElementSchema
       \<lparr> idShort = ''Flag'', modelType = Property, semanticId = None, semanticLabel = None,
         qualifiers = [], cardinality = ''[0..1]'', valueType = Some ''xs:boolean'',
         element_value = Undefined, contentType = None, range_min = Undefined,
         range_max = Undefined, globalAssetId = None \<rparr>
       [] None [] []"

definition listElement :: "string \<Rightarrow> UIElementSchema" where
  "listElement c =
     UIElementSchema
       \<lparr> idShort = ''Markings'', modelType = SubmodelElementList, semanticId = None,
         semanticLabel = None, qualifiers = [], cardinality = c, valueType = None,
         element_value = Undefined, contentType = None, range_min = Undefined,
         range_max = Undefined, globalAssetId = None \<rparr>
       [] None [] []"




section \<open>Properties of the string helpers\<close>

lemma dropWhile_hd: "xs \<noteq> [] \<Longrightarrow> \<not> P (hd xs) \<Longrightarrow> dropWhile P xs = xs"
  by (cases xs) auto

lemma trim_Nil: "trim [] = []"
  by (simp add: trim_def)

lemma trim_id:
  assumes "s \<noteq> []" "\<not> isWhiteSpace (hd s)" "\<not> isWhiteSpace (last s)"
  shows "trim s = s"
proof -
  have 1: "dropWhile isWhiteSpace s = s" using assms by (simp add: dropWhile_hd)
  have "hd (rev s) = last s" using assms(1) by (simp add: hd_rev)
  then have 2: "dropWhile isWhiteSpace (rev s) = rev s" using assms by (simp add: dropWhile_hd)
  show ?thesis by (simp add: trim_def 1 2)
qed

text \<open>A trimmed string is empty or has no white space at either end.\<close>

lemma trim_cases:
  "trim s = [] \<or> (\<not> isWhiteSpace (hd (trim s)) \<and> \<not> isWhiteSpace (last (trim s)))"
proof -
  let ?a = "dropWhile isWhiteSpace s"
  let ?b = "dropWhile isWhiteSpace (rev ?a)"
  show ?thesis
  proof (cases "?b = []")
    case True then show ?thesis by (simp add: trim_def)
  next
    case False
    then have h: "\<not> isWhiteSpace (hd ?b)" by (rule hd_dropWhile)
    have "?a = [] \<Longrightarrow> ?b = []"
    proof -
      assume e: "?a = []"
      show "?b = []" unfolding e by simp
    qed
    with False have ne: "?a \<noteq> []" by blast
    then have ha: "\<not> isWhiteSpace (hd ?a)" by (rule hd_dropWhile)
    have "rev (takeWhile isWhiteSpace (rev ?a) @ ?b) = rev (rev ?a)"
      by (simp only: takeWhile_dropWhile_id)
    then have "rev ?b @ rev (takeWhile isWhiteSpace (rev ?a)) = ?a"
      by (simp only: rev_append rev_rev_ident)
    then have "hd ?a = hd (rev ?b @ rev (takeWhile isWhiteSpace (rev ?a)))" by simp
    with False have "hd ?a = hd (rev ?b)" by simp
    with ha have "\<not> isWhiteSpace (hd (rev ?b))" by simp
    moreover have "last (rev ?b) = hd ?b" using False by (simp add: last_rev)
    ultimately show ?thesis using h by (simp add: trim_def)
  qed
qed

lemma trim_trim: "trim (trim s) = trim s"
proof (cases "trim s = []")
  case True
  with trim_Nil show ?thesis by simp
next
  case False
  with trim_cases [of s] show ?thesis by (simp add: trim_id)
qed

lemma startsWith_bracket: "startsWith s ''['' = (\<exists>r. s = CHR ''['' # r)"
  by (cases s) (auto simp: startsWith_def)

lemma endsWith_bracket: "endsWith s '']'' = (s \<noteq> [] \<and> last s = CHR '']'')"
proof (cases s rule: rev_cases)
  case Nil then show ?thesis by (simp add: endsWith_def)
next
  case (snoc ys y) then show ?thesis by (auto simp: endsWith_def)
qed

section \<open>Properties of the cardinality helpers\<close>

text \<open>A string argument is truthy unless it is empty, so \<open>(cardinality || '')\<close> is the argument.\<close>

lemma normalizeCardinality_trim:
  "normalizeCardinality c =
     (if truthy (js_get mapping (trim c)) then js_get mapping (trim c)
      else if startsWith (trim c) ''['' \<and> endsWith (trim c) '']'' then Str (trim c)
      else if str_includes (trim c) ''..'' then Str (''['' @ trim c @ '']'')
      else if regex_backslash_d_plus (trim c) then Str (''['' @ trim c @ '']'')
      else Str (trim c))"
proof -
  have "(if truthy (Str c) then c else []) = c" by simp
  then show ?thesis unfolding normalizeCardinality_def Let_def by simp
qed

lemma mapping_get_bracket: "js_get mapping (CHR ''['' # r) = Undefined"
  by (simp add: js_get_def mapping_def object_prototype_keys_def)

lemma mapping_get_Str: "js_get mapping k = Str v \<Longrightarrow> startsWith v ''['' \<and> endsWith v '']''"
  by (auto simp: js_get_def mapping_def startsWith_def endsWith_def
           split: if_splits option.splits)

lemma js_get_mapping_cases:
  "(\<exists>r. js_get mapping k = Str r) \<or>
   (k \<in> set object_prototype_keys \<and> js_get mapping k = Builtin k) \<or>
   js_get mapping k = Undefined"
  by (simp add: js_get_def mapping_def)

lemma normalizeCardinality_bracketed:
  assumes "startsWith c ''[''" "endsWith c '']''"
  shows "normalizeCardinality c = Str c"
proof -
  from assms(1) obtain r where c: "c = CHR ''['' # r" by (auto simp: startsWith_bracket)
  from assms(2) have l: "c \<noteq> []" "last c = CHR '']''" by (auto simp: endsWith_bracket)
  have "\<not> isWhiteSpace (hd c)" using c by (simp add: isWhiteSpace_def)
  moreover have "\<not> isWhiteSpace (last c)" using l by (simp add: isWhiteSpace_def)
  ultimately have t: "trim c = c" using l(1) by (simp add: trim_id)
  have m: "js_get mapping c = Undefined" using c mapping_get_bracket by simp
  show ?thesis using assms by (simp add: normalizeCardinality_trim t m)
qed

lemma normalizeCardinality_wrapped:
  "normalizeCardinality (''['' @ t @ '']'') = Str (''['' @ t @ '']'')"
  by (rule normalizeCardinality_bracketed) (simp_all add: startsWith_def endsWith_def)

text \<open>
  The result is a string, or the argument trims to the name of a member of
  \<open>Object.prototype\<close> and the result is that member.
\<close>

lemma normalizeCardinality_cases:
  "(\<exists>r. normalizeCardinality c = Str r) \<or>
   (trim c \<in> set object_prototype_keys \<and> normalizeCardinality c = Builtin (trim c))"
  using js_get_mapping_cases [of "trim c"] by (auto simp: normalizeCardinality_trim)

text \<open>Whenever the result is a string, normalizing it again returns it unchanged.\<close>

lemma normalizeCardinality_fixpoint:
  assumes "normalizeCardinality c = Str r"
  shows "normalizeCardinality r = Str r"
proof -
  let ?t = "trim c"
  note n = normalizeCardinality_trim [of c]
  consider (m) "truthy (js_get mapping ?t)"
    | (b) "\<not> truthy (js_get mapping ?t)" "startsWith ?t ''['' \<and> endsWith ?t '']''"
    | (w) "\<not> truthy (js_get mapping ?t)" "\<not> (startsWith ?t ''['' \<and> endsWith ?t '']'')"
          "str_includes ?t ''..'' \<or> regex_backslash_d_plus ?t"
    | (u) "\<not> truthy (js_get mapping ?t)" "\<not> (startsWith ?t ''['' \<and> endsWith ?t '']'')"
          "\<not> str_includes ?t ''..''" "\<not> regex_backslash_d_plus ?t"
    by blast
  then show ?thesis
  proof cases
    case m
    with assms have "js_get mapping ?t = Str r" by (simp add: n)
    then have "startsWith r ''['' \<and> endsWith r '']''" by (rule mapping_get_Str)
    then show ?thesis by (simp add: normalizeCardinality_bracketed)
  next
    case b
    with assms have "r = ?t" by (simp add: n)
    with b show ?thesis by (simp add: normalizeCardinality_bracketed)
  next
    case w
    with assms have "r = ''['' @ ?t @ '']''"
      by (auto simp add: n split: if_splits)
    then show ?thesis using normalizeCardinality_wrapped [of ?t] by simp
  next
    case u
    with assms have r: "r = ?t" by (simp add: n)
    have "normalizeCardinality ?t = Str ?t"
      using u by (simp add: normalizeCardinality_trim [of "trim c"] trim_trim)
    with r show ?thesis by simp
  qed
qed

text \<open>
  Away from the inherited names nothing throws: the result is a string and \<open>getMaxItems\<close>
  returns.
\<close>

lemma no_throw_off_prototype:
  assumes "trim c \<notin> set object_prototype_keys"
  shows "\<exists>r m. normalizeCardinality c = Str r \<and> getMaxItems c = Inr m"
proof -
  from assms normalizeCardinality_cases [of c]
  obtain r where r: "normalizeCardinality c = Str r" by blast
  show ?thesis
    by (auto simp: getMaxItems_def Let_def r js_includes_def split: sum.splits bool.splits)
qed

text \<open>
  Claim C2, at the input \<open>constructor\<close>.  The claim says that an unrecognized cardinality
  string comes back as the trimmed input, with \<open>getMinItems\<close> 0 and \<open>getMaxItems\<close> undefined,
  and that no input makes the functions throw.  The lookup \<open>mapping[trimmed]\<close> finds the
  inherited member \<open>Object.prototype.constructor\<close>, \<open>normalizeCardinality\<close> returns that
  function instead of the string, and \<open>getMaxItems\<close> raises a TypeError when it calls
  \<open>includes\<close> on it.
\<close>

theorem getMaxItems_throws_on_inherited_key:
  "normalizeCardinality ''constructor'' = Builtin ''constructor'' \<and>
   getMinItems ''constructor'' = 0 \<and>
   getMaxItems ''constructor'' = Inl TypeError"
  by code_simp

text \<open>
  Claim C3: \<open>normalizeCardinality\<close> maps each named alias to its bracket form (ZeroToOne to
  [0..1], ZeroToMany to [0..*], OneToMany to [1..*], One to [1], Zero to [0]) and returns
  every input that starts with an opening bracket and ends with a closing bracket unchanged.
\<close>

theorem normalizeCardinality_aliases_and_bracketed:
  "normalizeCardinality ''ZeroToOne'' = Str ''[0..1]'' \<and>
   normalizeCardinality ''ZeroToMany'' = Str ''[0..*]'' \<and>
   normalizeCardinality ''OneToMany'' = Str ''[1..*]'' \<and>
   normalizeCardinality ''One'' = Str ''[1]'' \<and>
   normalizeCardinality ''Zero'' = Str ''[0]'' \<and>
   (\<forall>c. startsWith c ''['' \<and> endsWith c '']'' \<longrightarrow> normalizeCardinality c = Str c)"
proof -
  have 1: "normalizeCardinality ''ZeroToOne'' = Str ''[0..1]''" by code_simp
  have 2: "normalizeCardinality ''ZeroToMany'' = Str ''[0..*]''" by code_simp
  have 3: "normalizeCardinality ''OneToMany'' = Str ''[1..*]''" by code_simp
  have 4: "normalizeCardinality ''One'' = Str ''[1]''" by code_simp
  have 5: "normalizeCardinality ''Zero'' = Str ''[0]''" by code_simp
  show ?thesis using 1 2 3 4 5 normalizeCardinality_bracketed by blast
qed

theorem normalizeCardinality_aliases_and_bracketed_witness:
  "startsWith ''[2..5]'' ''['' \<and> endsWith ''[2..5]'' '']'' \<and>
   normalizeCardinality ''[2..5]'' = Str ''[2..5]''"
proof -
  have h: "startsWith ''[2..5]'' ''['' \<and> endsWith ''[2..5]'' '']''"
    by (simp add: startsWith_def endsWith_def)
  from normalizeCardinality_aliases_and_bracketed
  have "\<forall>c. startsWith c ''['' \<and> endsWith c '']'' \<longrightarrow> normalizeCardinality c = Str c"
    by blast
  with h show ?thesis by blast
qed

text \<open>
  Claim C4, at the input \<open>constructor\<close>.  The claim says that normalizing twice equals
  normalizing once for every input string.  The first call returns the inherited function,
  which is not a string, and the second call raises a TypeError on \<open>trim\<close>.  Lemma
  \<open>normalizeCardinality_fixpoint\<close> shows that this is the only way idempotence fails.
\<close>

theorem normalizeCardinality_twice_throws_on_inherited_key:
  "normalizeCardinality ''constructor'' = Builtin ''constructor'' \<and>
   normalizeCardinality_rt (Builtin ''constructor'') = Inl TypeError"
  by code_simp

text \<open>
  Claim C5: for every cardinality string, \<open>isRequired\<close> holds exactly when \<open>getMinItems\<close> is
  at least 1.
\<close>

theorem isRequired_iff_getMinItems: "isRequired c = (1 \<le> getMinItems c)"
  by (simp add: isRequired_def getMinItems_def Let_def)

text \<open>
  Claim C6: the cardinality [1..*] resolves to minimum 1 and no maximum.
\<close>

theorem resolve_one_to_many:
  "getMinItems ''[1..*]'' = 1 \<and> getMaxItems ''[1..*]'' = Inr None"
proof -
  have n: "normalizeCardinality ''[1..*]'' = Str ''[1..*]''"
    by (rule normalizeCardinality_bracketed) (simp_all add: startsWith_def endsWith_def)
  have i: "js_includes (Str ''[1..*]'') ''*'' = Inr True"
    by (simp add: js_includes_def startsWith_def)
  show ?thesis by (simp add: getMinItems_def getMaxItems_def n i)
qed

text \<open>
  Claim C10: a bare numeric cardinality is not put into bracket form.  The string 1 is
  returned as it is, so it is not required and its minimum is 0, while [1] is required with
  minimum 1.
\<close>

theorem bare_digit_not_canonicalized:
  "normalizeCardinality ''1'' = Str ''1'' \<and>
   isRequired ''1'' = False \<and>
   getMinItems ''1'' = 0 \<and>
   isRequired ''[1]'' = True \<and>
   getMinItems ''[1]'' = 1"
  by code_simp

section \<open>Properties of the list field\<close>




text \<open>The buttons of a rendered item always find their index in range.\<close>

lemma handleMoveUp_defined: "i < length flds \<Longrightarrow> \<exists>flds'. handleMoveUp flds i = Some flds'"
  by (auto simp: handleMoveUp_def fa_move_def)

lemma handleMoveDown_defined: "i < length flds \<Longrightarrow> \<exists>flds'. handleMoveDown flds i = Some flds'"
  by (auto simp: handleMoveDown_def fa_move_def)

text \<open>
  Whatever entry stands at an index, it is given the schema of that index; where the list has
  an existing item there, that is the item's schema.
\<close>

lemma renderItems_nth:
  assumes "k < length flds"
  shows "renderItems schema flds ! k = (fst (flds ! k), snd (flds ! k), getItemSchema schema k)"
  using assms by (simp add: renderItems_def nth_enumerate_eq)

lemma getItemSchema_in_range:
  "k < length (items schema) \<Longrightarrow> getItemSchema schema k = items schema ! k"
  by (simp add: getItemSchema_def)






section \<open>Properties of the generated validation schema\<close>

lemma startsWith_iff: "startsWith s p = (\<exists>b. s = p @ b)"
proof
  assume "startsWith s p"
  then have "s = p @ drop (length p) s"
    unfolding startsWith_def by (metis append_take_drop_id)
  then show "\<exists>b. s = p @ b" ..
next
  assume "\<exists>b. s = p @ b"
  then show "startsWith s p" by (auto simp: startsWith_def)
qed

text \<open>\<open>str_includes\<close> decides whether the pattern occurs somewhere in the string.\<close>

lemma str_includes_iff: "str_includes s p = (\<exists>a b. s = a @ p @ b)"
proof (induction s)
  case Nil
  show ?case by simp
next
  case (Cons c cs)
  have "(\<exists>a b. c # cs = a @ p @ b) = ((\<exists>b. c # cs = p @ b) \<or> (\<exists>a b. cs = a @ p @ b))"
  proof
    assume "\<exists>a b. c # cs = a @ p @ b"
    then obtain a b where ab: "c # cs = a @ p @ b" by blast
    show "(\<exists>b. c # cs = p @ b) \<or> (\<exists>a b. cs = a @ p @ b)"
    proof (cases a)
      case Nil
      with ab show ?thesis by auto
    next
      case (Cons x a')
      with ab have "cs = a' @ p @ b" by simp
      then show ?thesis by blast
    qed
  next
    assume "(\<exists>b. c # cs = p @ b) \<or> (\<exists>a b. cs = a @ p @ b)"
    then show "\<exists>a b. c # cs = a @ p @ b"
    proof
      assume "\<exists>b. c # cs = p @ b"
      then obtain b where "c # cs = [] @ p @ b" by auto
      then show ?thesis by blast
    next
      assume "\<exists>a b. cs = a @ p @ b"
      then obtain a b where "cs = a @ p @ b" by blast
      then have "c # cs = (c # a) @ p @ b" by simp
      then show ?thesis by blast
    qed
  qed
  with Cons show ?case by (simp add: startsWith_iff)
qed

text \<open>The schema of a Property is the schema of its value kind, wrapped when optional.\<close>

lemma generateZodSchema_Property:
  assumes "modelType (attrs e) = Property"
  shows "generateZodSchema e =
           (let k = kindSchema (propertyValueKind (or_string (valueType (attrs e)) ''xs:string''))
            in ZObject [(''value'', if isRequired (cardinality (attrs e)) then k
                                   else ZNullable (ZOptional k))])"
  using assms by (cases e) (simp add: Let_def)

text \<open>
  Claim C7 as the specification states it fails: the type \<open>xs:nonNegativeInteger\<close> has no
  substring \<open>int\<close>, so the specification's classification makes it text, but the code also
  tests for \<open>Integer\<close> and makes it an integer.
\<close>

theorem value_kind_Integer_counterexample:
  "propertyValueKind ''xs:nonNegativeInteger'' = KInteger \<and>
   spec_valueKind ''xs:nonNegativeInteger'' = KText \<and>
   kindSchema (propertyValueKind ''xs:nonNegativeInteger'')
     \<noteq> kindSchema (spec_valueKind ''xs:nonNegativeInteger'')"
  by code_simp

text \<open>
  Claim C7, amended: for every declared type string the value kind of a Property is chosen
  by substring in this order: containing \<open>int\<close> or \<open>Integer\<close> gives integer; else containing
  \<open>float\<close>, \<open>double\<close> or \<open>decimal\<close> gives decimal; else containing \<open>bool\<close> gives boolean;
  else containing \<open>date\<close> gives date; otherwise text.
\<close>

theorem property_value_kind_by_substring:
  "propertyValueKind vt =
     (if (\<exists>a b. vt = a @ ''int'' @ b) \<or> (\<exists>a b. vt = a @ ''Integer'' @ b) then KInteger
      else if (\<exists>a b. vt = a @ ''float'' @ b) \<or> (\<exists>a b. vt = a @ ''double'' @ b) \<or>
              (\<exists>a b. vt = a @ ''decimal'' @ b) then KDecimal
      else if (\<exists>a b. vt = a @ ''bool'' @ b) then KBoolean
      else if (\<exists>a b. vt = a @ ''date'' @ b) then KDate
      else KText)"
  unfolding propertyValueKind_def str_includes_iff by (rule refl)

text \<open>
  What an optional Property's value schema does with an absent and with an empty value:
  \<open>undefined\<close> and \<open>null\<close> pass for every kind; the empty string passes as the empty string
  for the text and date kinds, and as the number that \<open>Number('')\<close> yields for the numeric
  kinds.
\<close>

lemma optional_absent_accepted:
  "zparse N (ZNullable (ZOptional z)) Undefined = Inr Undefined \<and>
   zparse N (ZNullable (ZOptional z)) Null = Inr Null"
  by simp

lemma optional_string_keeps_empty:
  "zparse N (ZNullable (ZOptional ZString)) (Str []) = Inr (Str [])"
  by simp

lemma optional_number_coerces_empty:
  assumes "N (Str []) = Finite 0"
  shows "zparse N (ZNullable (ZOptional ZCoerceNumber)) (Str []) = Inr (Num (Finite 0)) \<and>
         zparse N (ZNullable (ZOptional ZCoerceNumberInt)) (Str []) = Inr (Num (Finite 0))"
  using assms by simp

text \<open>
  Claim C8, at an optional boolean Property with no value.  The claim says that the empty
  form value of an optional field is read as absent for every value kind and never gives an
  error.  The element is not required, its default form data is the empty string, its schema
  is \<open>z.boolean().optional().nullable()\<close> under the key \<open>value\<close>, and parsing the default
  form data against the schema reports a type issue at \<open>value\<close>.
\<close>

theorem optional_boolean_rejects_empty_string:
  "isRequired (cardinality (attrs optionalBooleanProperty)) = False \<and>
   generateElementDefaults optionalBooleanProperty = Object [(''value'', Str [])] \<and>
   generateZodSchema optionalBooleanProperty
     = ZObject [(''value'', ZNullable (ZOptional ZBoolean))] \<and>
   zparse N (generateZodSchema optionalBooleanProperty)
       (generateElementDefaults optionalBooleanProperty)
     = Inl [ZodIssue invalid_type [Key ''value'']]"
  by code_simp

text \<open>The minimum of a list schema is 1 for the literal cardinality [1..*] and 0 otherwise.\<close>

lemma generateZodSchema_List_min:
  assumes "modelType (attrs e) = SubmodelElementList"
  shows "\<exists>itemSchema. generateZodSchema e =
           ZObject [(''items'', ZArrayMin itemSchema
                                  (if cardinality (attrs e) = ''[1..*]'' then 1 else 0))]"
  using assms by (cases e) (simp add: Let_def)

text \<open>
  Claim C9, at the cardinality \<open>OneToMany\<close>.  The claim says that the list schema enforces
  the minimum \<open>getMinItems\<close> computes.  The schema compares the raw cardinality with the
  literal [1..*], so for the alias it enforces 0 and accepts the empty list, while
  \<open>getMinItems\<close> is 1; for [1..*] itself both are 1.
\<close>

theorem list_schema_min_ignores_alias:
  "generateZodSchema (listElement ''OneToMany'') = ZObject [(''items'', ZArrayMin ZAny 0)] \<and>
   getMinItems ''OneToMany'' = 1 \<and>
   zparse N (generateZodSchema (listElement ''OneToMany'')) (Object [(''items'', Array [])])
     = Inr (Object [(''items'', Array [])]) \<and>
   generateZodSchema (listElement ''[1..*]'') = ZObject [(''items'', ZArrayMin ZAny 1)] \<and>
   getMinItems ''[1..*]'' = 1"
  by code_simp

end
